theory Spec2Isabelle
  imports Complex_Main "HOL-Library.Word"
begin

section \<open>Python values and exceptions\<close>

text \<open>
  The program is dynamically typed: a packet's fields hold whatever the caller put there.
  \<open>pyval\<close> is the fragment of Python's values the isles exchange: \<open>None\<close>, booleans,
  unbounded integers, strings, lists, tuples, dictionaries with \<open>str\<close> keys (kept in
  insertion order, as Python's \<open>dict\<close> keeps them) and exception objects.  An exception
  object \<open>VExc cls args\<close> is its class name and its arguments; a message written as an
  f-string is kept as its segments (the literal pieces as \<open>VStr\<close>, the interpolated values
  as they are before \<open>str()\<close>).  Floating-point numbers are not part of the model.
\<close>

datatype pyval =
    VNone
  | VBool bool
  | VInt int
  | VStr string
  | VList "pyval list"
  | VTuple "pyval list"
  | VDict "(string \<times> pyval) list"
  | VExc string "pyval list"

text \<open>A raised exception: the class name and the arguments. A computation that may raise
  returns \<open>pyexc + 'a\<close>, with \<open>Inl\<close> for the exception.\<close>

type_synonym pyexc = "string \<times> pyval list"

subsection \<open>Operators\<close>

text \<open>\<open>a == b\<close>.  Booleans compare as the integers 0 and 1; dictionaries compare
  irrespective of order; a list never equals a tuple.  Exception objects compare by
  identity in Python, by class and arguments here.\<close>

fun py_eq :: "pyval \<Rightarrow> pyval \<Rightarrow> bool"
  and py_eq_list :: "pyval list \<Rightarrow> pyval list \<Rightarrow> bool"
  and py_eq_items :: "(string \<times> pyval) list \<Rightarrow> (string \<times> pyval) list \<Rightarrow> bool"
  and py_eq_lookup :: "pyval \<Rightarrow> string \<Rightarrow> (string \<times> pyval) list \<Rightarrow> bool"
where
  "py_eq VNone b = (b = VNone)"
| "py_eq (VBool x) b =
     (case b of VBool y \<Rightarrow> x = y | VInt j \<Rightarrow> (if x then 1 else 0) = j | _ \<Rightarrow> False)"
| "py_eq (VInt i) b =
     (case b of VBool y \<Rightarrow> i = (if y then 1 else 0) | VInt j \<Rightarrow> i = j | _ \<Rightarrow> False)"
| "py_eq (VStr s) b = (b = VStr s)"
| "py_eq (VList xs) b = (case b of VList ys \<Rightarrow> py_eq_list xs ys | _ \<Rightarrow> False)"
| "py_eq (VTuple xs) b = (case b of VTuple ys \<Rightarrow> py_eq_list xs ys | _ \<Rightarrow> False)"
| "py_eq (VDict kvs) b =
     (case b of VDict kvs' \<Rightarrow> length kvs = length kvs' \<and> py_eq_items kvs kvs' | _ \<Rightarrow> False)"
| "py_eq (VExc c a) b = (b = VExc c a)"
| "py_eq_list [] ys = (ys = [])"
| "py_eq_list (x # xs) ys =
     (case ys of [] \<Rightarrow> False | y # ys' \<Rightarrow> py_eq x y \<and> py_eq_list xs ys')"
| "py_eq_items [] kvs' = True"
| "py_eq_items ((k, v) # kvs) kvs' = (py_eq_lookup v k kvs' \<and> py_eq_items kvs kvs')"
| "py_eq_lookup v k [] = False"
| "py_eq_lookup v k ((k', v') # kvs') = (if k = k' then py_eq v v' else py_eq_lookup v k kvs')"


text \<open>Python's \<open>xs[i]\<close> on a sequence: a negative index counts from the end.\<close>

definition seq_index :: "'a list \<Rightarrow> int \<Rightarrow> 'a option" where
  "seq_index xs i =
     (let n = int (length xs); j = (if i < 0 then n + i else i)
      in if 0 \<le> j \<and> j < n then Some (xs ! nat j) else None)"

text \<open>\<open>len(v)\<close>.\<close>

fun py_len :: "pyval \<Rightarrow> pyexc + nat" where
  "py_len (VStr s) = Inr (length s)"
| "py_len (VList xs) = Inr (length xs)"
| "py_len (VTuple xs) = Inr (length xs)"
| "py_len (VDict kvs) = Inr (length kvs)"
| "py_len v = Inl (''TypeError'', [VStr ''object has no len()''])"

text \<open>\<open>v[i]\<close> for an integer \<open>i\<close>.  A dictionary of the model has \<open>str\<close> keys only, so
  an integer is a missing key.\<close>

fun py_getitem_int :: "pyval \<Rightarrow> int \<Rightarrow> pyexc + pyval" where
  "py_getitem_int (VStr s) i =
     (case seq_index s i of Some c \<Rightarrow> Inr (VStr [c])
      | None \<Rightarrow> Inl (''IndexError'', [VStr ''string index out of range'']))"
| "py_getitem_int (VList xs) i =
     (case seq_index xs i of Some x \<Rightarrow> Inr x
      | None \<Rightarrow> Inl (''IndexError'', [VStr ''list index out of range'']))"
| "py_getitem_int (VTuple xs) i =
     (case seq_index xs i of Some x \<Rightarrow> Inr x
      | None \<Rightarrow> Inl (''IndexError'', [VStr ''tuple index out of range'']))"
| "py_getitem_int (VDict kvs) i = Inl (''KeyError'', [VInt i])"
| "py_getitem_int v i = Inl (''TypeError'', [VStr ''object is not subscriptable''])"

text \<open>\<open>v[k]\<close> for a string \<open>k\<close>.\<close>

fun py_getitem_str :: "pyval \<Rightarrow> string \<Rightarrow> pyexc + pyval" where
  "py_getitem_str (VDict kvs) k =
     (case map_of kvs k of Some v \<Rightarrow> Inr v | None \<Rightarrow> Inl (''KeyError'', [VStr k]))"
| "py_getitem_str (VStr s) k = Inl (''TypeError'', [VStr ''string indices must be integers''])"
| "py_getitem_str (VList xs) k = Inl (''TypeError'', [VStr ''list indices must be integers or slices''])"
| "py_getitem_str (VTuple xs) k = Inl (''TypeError'', [VStr ''tuple indices must be integers or slices''])"
| "py_getitem_str v k = Inl (''TypeError'', [VStr ''object is not subscriptable''])"

text \<open>\<open>k in s\<close> for two strings: \<open>k\<close> occurs in \<open>s\<close> as a contiguous substring.\<close>

fun is_prefix :: "'a list \<Rightarrow> 'a list \<Rightarrow> bool" where
  "is_prefix [] ys = True"
| "is_prefix (x # xs) [] = False"
| "is_prefix (x # xs) (y # ys) = (x = y \<and> is_prefix xs ys)"

fun is_substring :: "'a list \<Rightarrow> 'a list \<Rightarrow> bool" where
  "is_substring k [] = (k = [])"
| "is_substring k (c # s) = (is_prefix k (c # s) \<or> is_substring k s)"

text \<open>\<open>k in v\<close> for a string \<open>k\<close>: a key of a dictionary, a substring of a string, an
  element of a list or tuple; \<open>TypeError\<close> on a value that is not iterable.\<close>

fun py_contains_str :: "string \<Rightarrow> pyval \<Rightarrow> pyexc + bool" where
  "py_contains_str k (VDict kvs) = Inr (map_of kvs k \<noteq> None)"
| "py_contains_str k (VStr s) = Inr (is_substring k s)"
| "py_contains_str k (VList xs) = Inr (list_ex (\<lambda>x. py_eq x (VStr k)) xs)"
| "py_contains_str k (VTuple xs) = Inr (list_ex (\<lambda>x. py_eq x (VStr k)) xs)"
| "py_contains_str k v = Inl (''TypeError'', [VStr ''argument is not iterable''])"

text \<open>Whether a value can be a dictionary key.\<close>

fun py_hashable :: "pyval \<Rightarrow> bool" where
  "py_hashable (VList xs) = False"
| "py_hashable (VDict kvs) = False"
| "py_hashable (VTuple xs) = list_all py_hashable xs"
| "py_hashable v = True"

text \<open>\<open>*v\<close> in a call: the elements of an iterable (the characters of a string, the keys
  of a dictionary).\<close>

fun py_star_args :: "pyval \<Rightarrow> pyexc + pyval list" where
  "py_star_args (VList xs) = Inr xs"
| "py_star_args (VTuple xs) = Inr xs"
| "py_star_args (VStr s) = Inr (map (\<lambda>c. VStr [c]) s)"
| "py_star_args (VDict kvs) = Inr (map (\<lambda>kv. VStr (fst kv)) kvs)"
| "py_star_args v = Inl (''TypeError'', [VStr ''argument after * must be an iterable''])"

text \<open>\<open>**v\<close> in a call: the items of a mapping.\<close>

fun py_star_kwargs :: "pyval \<Rightarrow> pyexc + (string \<times> pyval) list" where
  "py_star_kwargs (VDict kvs) = Inr kvs"
| "py_star_kwargs v = Inl (''TypeError'', [VStr ''argument after ** must be a mapping''])"

section \<open>Packet (isles.py)\<close>

record packet =
  "identifier" :: pyval
  sender :: pyval
  receiver :: pyval
  data :: pyval

text \<open>\<open>Packet.__init__(sender, receiver, data, identifier=None)\<close>.  \<open>uuid\<close> is what
  \<open>uuid.uuid4().hex\<close> returns if it is called.\<close>

definition Packet :: "string \<Rightarrow> pyval \<Rightarrow> pyval \<Rightarrow> pyval \<Rightarrow> pyval \<Rightarrow> packet" where
  "Packet uuid sender' receiver' data' identifier' =
     \<lparr> identifier = (if identifier' = VNone then VStr uuid else identifier'),
       sender = sender', receiver = receiver', data = data' \<rparr>"

definition toDict :: "packet \<Rightarrow> pyval" where
  "toDict p = VDict [(''identifier'', identifier p), (''sender'', sender p),
                     (''receiver'', receiver p), (''data'', data p)]"

definition createReply :: "string \<Rightarrow> packet \<Rightarrow> pyval \<Rightarrow> packet" where
  "createReply uuid p data' = Packet uuid (receiver p) (sender p) data' (identifier p)"


section \<open>The JSON codec of the standard library\<close>

text \<open>
  \<open>json.dumps(obj, separators=(',', ':'))\<close> and \<open>json.loads(s)\<close> as \<open>Packet\<close> uses them,
  on the values of the model.  A \<open>str\<close> is the list of its code points; HOL's \<open>char\<close>
  has 256 values, so the model covers text up to U+00FF.  Escapes that denote a code point
  above that, and numbers with a fraction or an exponent (floats), are outside the model:
  the decoder reports them as \<open>NotModelled\<close>.
\<close>

subsection \<open>Encoding\<close>

definition digit_char :: "nat \<Rightarrow> char" where
  "digit_char n = char_of (48 + n)"

text \<open>\<open>str(n)\<close> for a natural number and for an integer.\<close>

function dec_nat :: "nat \<Rightarrow> string" where
  "dec_nat n = (if n < 10 then [digit_char n] else dec_nat (n div 10) @ [digit_char (n mod 10)])"
  by pat_completeness auto
termination
  by (relation "measure id") auto

declare dec_nat.simps [simp del]

definition dec_int :: "int \<Rightarrow> string" where
  "dec_int i = (if i < 0 then CHR ''-'' # dec_nat (nat (- i)) else dec_nat (nat i))"

text \<open>A lower-case hexadecimal digit.\<close>

definition hex_char :: "nat \<Rightarrow> char" where
  "hex_char n = (if n < 10 then char_of (48 + n) else char_of (87 + n))"

text \<open>The escape of one character with \<open>ensure_ascii\<close>: the printable ASCII characters
  but the double quote (\<open>0x22\<close>) and the backslash (\<open>0x5C\<close>) stand for themselves.\<close>

definition escape_char :: "char \<Rightarrow> string" where
  "escape_char c =
     (if c = CHR 0x22 then [CHR 0x5C, CHR 0x22]
      else if c = CHR 0x5C then [CHR 0x5C, CHR 0x5C]
      else if c = CHR 0x0A then [CHR 0x5C, CHR ''n'']
      else if c = CHR 0x0D then [CHR 0x5C, CHR ''r'']
      else if c = CHR 0x09 then [CHR 0x5C, CHR ''t'']
      else if c = CHR 0x08 then [CHR 0x5C, CHR ''b'']
      else if c = CHR 0x0C then [CHR 0x5C, CHR ''f'']
      else if 32 \<le> (of_char c :: nat) \<and> (of_char c :: nat) \<le> 126 then [c]
      else [CHR 0x5C, CHR ''u'', CHR ''0'', CHR ''0'',
            hex_char ((of_char c :: nat) div 16), hex_char ((of_char c :: nat) mod 16)])"

definition encode_basestring_ascii :: "string \<Rightarrow> string" where
  "encode_basestring_ascii s = CHR 0x22 # concat (map escape_char s) @ [CHR 0x22]"

text \<open>Whether \<open>json.dumps\<close> accepts a value: an exception object is not serializable.\<close>

fun json_serializable :: "pyval \<Rightarrow> bool"
  and json_serializable_list :: "pyval list \<Rightarrow> bool"
  and json_serializable_items :: "(string \<times> pyval) list \<Rightarrow> bool"
where
  "json_serializable VNone = True"
| "json_serializable (VBool b) = True"
| "json_serializable (VInt i) = True"
| "json_serializable (VStr s) = True"
| "json_serializable (VList xs) = json_serializable_list xs"
| "json_serializable (VTuple xs) = json_serializable_list xs"
| "json_serializable (VDict kvs) = json_serializable_items kvs"
| "json_serializable (VExc c a) = False"
| "json_serializable_list [] = True"
| "json_serializable_list (x # xs) = (json_serializable x \<and> json_serializable_list xs)"
| "json_serializable_items [] = True"
| "json_serializable_items ((k, v) # kvs) = (json_serializable v \<and> json_serializable_items kvs)"

text \<open>The text of a serializable value, with the separators \<open>','\<close> and \<open>':'\<close>; a tuple
  is written as an array.\<close>

fun json_text :: "pyval \<Rightarrow> string"
  and json_text_list :: "pyval list \<Rightarrow> string"
  and json_text_items :: "(string \<times> pyval) list \<Rightarrow> string"
where
  "json_text VNone = ''null''"
| "json_text (VBool b) = (if b then ''true'' else ''false'')"
| "json_text (VInt i) = dec_int i"
| "json_text (VStr s) = encode_basestring_ascii s"
| "json_text (VList xs) = CHR ''['' # json_text_list xs @ '']''"
| "json_text (VTuple xs) = CHR ''['' # json_text_list xs @ '']''"
| "json_text (VDict kvs) = CHR ''{'' # json_text_items kvs @ ''}''"
| "json_text (VExc c a) = []"
| "json_text_list [] = []"
| "json_text_list (x # xs) = json_text x @ (if xs = [] then [] else CHR '','' # json_text_list xs)"
| "json_text_items [] = []"
| "json_text_items ((k, v) # kvs) =
     encode_basestring_ascii k @ CHR '':'' # json_text v
     @ (if kvs = [] then [] else CHR '','' # json_text_items kvs)"

definition json_dumps :: "pyval \<Rightarrow> pyexc + string" where
  "json_dumps obj =
     (if json_serializable obj then Inr (json_text obj)
      else Inl (''TypeError'', [VStr ''Object is not JSON serializable'']))"

subsection \<open>Decoding\<close>



definition is_ws :: "char \<Rightarrow> bool" where
  "is_ws c = (c = CHR '' '' \<or> c = CHR 0x09 \<or> c = CHR 0x0A \<or> c = CHR 0x0D)"

definition skip_ws :: "string \<Rightarrow> string" where
  "skip_ws s = dropWhile is_ws s"











text \<open>\<open>d[k] = v\<close> on a dictionary kept in insertion order, and \<open>dict(pairs)\<close>: a
  later pair replaces the value of an earlier one with the same key.\<close>

fun dict_set :: "('k \<times> 'v) list \<Rightarrow> 'k \<Rightarrow> 'v \<Rightarrow> ('k \<times> 'v) list" where
  "dict_set [] k v = [(k, v)]"
| "dict_set ((k', v') # d) k v = (if k' = k then (k, v) # d else (k', v') # dict_set d k v)"




subsection \<open>UTF-8\<close>

type_synonym byte = "8 word"




subsection \<open>JSON values\<close>


subsection \<open>The three representations of a packet\<close>

definition toJSON :: "packet \<Rightarrow> pyexc + string" where
  "toJSON p = json_dumps (toDict p)"




section \<open>Connection\<close>

record connection =
  toRouter :: "packet list"
  toOwner :: "packet list"

definition Connection :: connection where
  "Connection = \<lparr> toRouter = [], toOwner = [] \<rparr>"

definition ownerSend :: "connection \<Rightarrow> packet \<Rightarrow> connection" where
  "ownerSend c p = c\<lparr> toRouter := toRouter c @ [p] \<rparr>"

definition ownerReceive :: "connection \<Rightarrow> packet option \<times> connection" where
  "ownerReceive c =
     (case toOwner c of [] \<Rightarrow> (None, c) | p # q \<Rightarrow> (Some p, c\<lparr> toOwner := q \<rparr>))"

definition routerSend :: "connection \<Rightarrow> packet \<Rightarrow> connection" where
  "routerSend c p = c\<lparr> toOwner := toOwner c @ [p] \<rparr>"

definition routerReceive :: "connection \<Rightarrow> packet option \<times> connection" where
  "routerReceive c =
     (case toRouter c of [] \<Rightarrow> (None, c) | p # q \<Rightarrow> (Some p, c\<lparr> toRouter := q \<rparr>))"

section \<open>Isle\<close>

text \<open>An exposed function, as the isle calls it: the positional arguments and the keyword
  arguments go in, a value comes back or an exception is raised (a call that does not fit
  the function's signature raises \<open>TypeError\<close>).  What a handler does to its isle's own
  attributes is not modelled.\<close>

type_synonym handler = "pyval list \<Rightarrow> (string \<times> pyval) list \<Rightarrow> pyexc + pyval"

text \<open>An attribute of an isle instance, as \<open>_getRoutes\<close> sees it: the value of its
  \<open>_route\<close> attribute, if it has one, and what calling it does.\<close>

datatype attribute = Attribute (route_mark: "pyval option") (callable: handler)

text \<open>The decorator \<open>@route\<close>: a wrapper that calls the function, stamped
  \<open>_route = True\<close>.\<close>

definition route :: "handler \<Rightarrow> attribute" where
  "route func = Attribute (Some (VBool True)) (\<lambda>args kwargs. func args kwargs)"

record isle =
  isle_identifier :: string
  routes :: "string \<Rightarrow> handler option"
  running :: bool
  connection :: connection

text \<open>\<open>Isle._getRoutes\<close> over \<open>dir(self)\<close>, given as the list of attribute names with
  their attributes.\<close>

fun getRoutes_loop :: "(string \<times> attribute) list \<Rightarrow> (string \<Rightarrow> handler option)
    \<Rightarrow> (string \<Rightarrow> handler option)" where
  "getRoutes_loop [] routes' = routes'"
| "getRoutes_loop ((attributename, attributeref) # rest) routes' =
     getRoutes_loop rest
       (if route_mark attributeref = Some (VBool True)
        then routes'(attributename \<mapsto> callable attributeref) else routes')"

definition getRoutes :: "(string \<times> attribute) list \<Rightarrow> (string \<Rightarrow> handler option)" where
  "getRoutes attributes = getRoutes_loop attributes Map.empty"

text \<open>\<open>Isle.__init__(identifier=None)\<close>; \<open>running\<close> is first set by \<open>eventloop\<close>.\<close>

definition Isle :: "string \<Rightarrow> string option \<Rightarrow> (string \<times> attribute) list \<Rightarrow> isle" where
  "Isle uuid identifier' attributes =
     \<lparr> isle_identifier = (case identifier' of None \<Rightarrow> uuid | Some i \<Rightarrow> i),
       routes = getRoutes attributes,
       running = False,
       connection = Connection \<rparr>"

text \<open>\<open>Isle.createPacket\<close>: the receiver must be a list.\<close>

definition createPacket :: "string \<Rightarrow> isle \<Rightarrow> pyval \<Rightarrow> pyval \<Rightarrow> pyexc + packet" where
  "createPacket uuid self receiver' data' =
     (case receiver' of
        VList hops \<Rightarrow> Inr (Packet uuid (VList [VStr (isle_identifier self)]) receiver' data' VNone)
      | _ \<Rightarrow> Inl (''AssertionError'', [VStr ''createPacket: receiver should be a list!'']))"

definition sendPacket :: "isle \<Rightarrow> packet \<Rightarrow> isle \<times> pyval" where
  "sendPacket self p = (self\<lparr> connection := ownerSend (connection self) p \<rparr>, identifier p)"

definition handleTooLate :: "isle \<Rightarrow> packet \<Rightarrow> pyexc + bool" where
  "handleTooLate self p = py_contains_str ''return'' (data p)"

definition handleShutdown :: "isle \<Rightarrow> packet \<Rightarrow> bool \<times> isle" where
  "handleShutdown self p =
     (if py_eq (data p) (VStr ''shutdown'') then (True, self\<lparr> running := False \<rparr>)
      else (False, self))"

text \<open>\<open>self.routes[key]\<close>: the route table is a dictionary keyed by attribute names.\<close>

definition routes_getitem :: "(string \<Rightarrow> handler option) \<Rightarrow> pyval \<Rightarrow> pyexc + handler" where
  "routes_getitem routes' key =
     (if \<not> py_hashable key then Inl (''TypeError'', [VStr ''unhashable type''])
      else case key of
             VStr name \<Rightarrow> (case routes' name of Some func \<Rightarrow> Inr func
                            | None \<Rightarrow> Inl (''KeyError'', [key]))
           | _ \<Rightarrow> Inl (''KeyError'', [key]))"

text \<open>The first two lines of \<open>__handleIslet\<close>: the length test and the route lookup.
  \<open>Inr None\<close>: the packet is not for an islet; \<open>Inr (Some func)\<close>: it is dispatched to
  \<open>func\<close>.\<close>

definition islet_func :: "isle \<Rightarrow> packet \<Rightarrow> pyexc + handler option" where
  "islet_func self p =
     (case py_len (receiver p) of Inl e \<Rightarrow> Inl e | Inr n \<Rightarrow>
        if n = 2 then
          (case py_getitem_int (receiver p) (- 2) of Inl e \<Rightarrow> Inl e | Inr key \<Rightarrow>
          (case routes_getitem (routes self) key of Inl e \<Rightarrow> Inl e | Inr func \<Rightarrow>
             Inr (Some func)))
        else Inr None)"

text \<open>\<open>func(*packet.data["args"], **packet.data["kwargs"])\<close>: both subscripts are
  evaluated, then the call unpacks them.\<close>

definition call_islet :: "handler \<Rightarrow> pyval \<Rightarrow> pyexc + pyval" where
  "call_islet func data' =
     (case py_getitem_str data' ''args'' of Inl e \<Rightarrow> Inl e | Inr a \<Rightarrow>
     (case py_getitem_str data' ''kwargs'' of Inl e \<Rightarrow> Inl e | Inr k \<Rightarrow>
     (case py_star_kwargs k of Inl e \<Rightarrow> Inl e | Inr kwargs \<Rightarrow>
     (case py_star_args a of Inl e \<Rightarrow> Inl e | Inr args \<Rightarrow>
        func args kwargs))))"

text \<open>The \<open>print\<close> of the \<open>except TypeError\<close> branch evaluates both subscripts again.\<close>

definition print_call :: "pyval \<Rightarrow> pyexc + unit" where
  "print_call data' =
     (case py_getitem_str data' ''args'' of Inl e \<Rightarrow> Inl e | Inr a \<Rightarrow>
     (case py_getitem_str data' ''kwargs'' of Inl e \<Rightarrow> Inl e | Inr k \<Rightarrow> Inr ()))"

text \<open>\<open>Isle.__handleIslet\<close>.  Only \<open>TypeError\<close> is caught; any other exception leaves
  the function.\<close>

definition handleIslet :: "string \<Rightarrow> isle \<Rightarrow> packet \<Rightarrow> pyexc + bool \<times> isle" where
  "handleIslet uuid self p =
     (case islet_func self p of
        Inl e \<Rightarrow> Inl e
      | Inr None \<Rightarrow> Inr (False, self)
      | Inr (Some func) \<Rightarrow>
          (case call_islet func (data p) of
             Inr response \<Rightarrow>
               Inr (True, fst (sendPacket self (createReply uuid p (VDict [(''return'', response)]))))
           | Inl e \<Rightarrow>
               if fst e = ''TypeError'' then
                 (case print_call (data p) of
                    Inl e' \<Rightarrow> Inl e'
                  | Inr u \<Rightarrow>
                      Inr (True, fst (sendPacket self
                             (createReply uuid p (VDict [(''exception'', VExc (fst e) (snd e))])))))
               else Inl e))"

text \<open>The body of the loop of \<open>__handleIncomingPackets\<close> for one packet: the three
  predicates in order (\<open>or\<close> stops at the first that returns \<open>True\<close>).  In the \<open>else\<close>
  branch a reply is constructed and dropped: nothing is sent.\<close>

definition handleIncomingPacket :: "string \<Rightarrow> isle \<Rightarrow> packet \<Rightarrow> pyexc + isle" where
  "handleIncomingPacket uuid self p =
     (case handleTooLate self p of
        Inl e \<Rightarrow> Inl e
      | Inr True \<Rightarrow> Inr self
      | Inr False \<Rightarrow>
          (case handleIslet uuid self p of
             Inl e \<Rightarrow> Inl e
           | Inr (True, self') \<Rightarrow> Inr self'
           | Inr (False, self') \<Rightarrow>
               (case handleShutdown self' p of
                  (True, self'') \<Rightarrow> Inr self''
                | (False, self'') \<Rightarrow>
                    (let reply = createReply uuid p
                       (VDict [(''exception'', VExc ''Exception'' [VStr ''Packet dropped: No takers.''])])
                     in Inr self''))))"


text \<open>\<open>Isle.__handleIncomingPackets\<close>: the loop takes packets off the inbound queue
  until it is empty.  \<open>uuid4 n\<close> is the \<open>n\<close>-th value \<open>uuid.uuid4().hex\<close> returns.
  The result is the exception that left the loop, if one did, and the isle as it is
  then.\<close>

lemma handleIncomingPacket_toOwner:
  "handleIncomingPacket uuid self p = Inr self'
   \<Longrightarrow> toOwner (connection self') = toOwner (connection self)"
  by (auto simp: handleIncomingPacket_def handleIslet_def handleShutdown_def sendPacket_def
        ownerSend_def Let_def
      split: sum.splits bool.splits option.splits if_splits prod.splits)

function handleIncomingPackets :: "(nat \<Rightarrow> string) \<Rightarrow> nat \<Rightarrow> isle \<Rightarrow> pyexc option \<times> isle" where
  "handleIncomingPackets uuid4 n self =
     (case ownerReceive (connection self) of
        (None, c) \<Rightarrow> (None, self\<lparr> connection := c \<rparr>)
      | (Some p, c) \<Rightarrow>
          (case handleIncomingPacket (uuid4 n) (self\<lparr> connection := c \<rparr>) p of
             Inl e \<Rightarrow> (Some e, self\<lparr> connection := c \<rparr>)
           | Inr self' \<Rightarrow> handleIncomingPackets uuid4 (n + 1) self'))"
  by pat_completeness auto
termination
  by (relation "measure (\<lambda>(uuid4, n, self). length (toOwner (connection self)))")
     (auto simp: ownerReceive_def split: list.splits dest!: handleIncomingPacket_toOwner)


text \<open>
  \<open>Isle.eventloop\<close>.  The tasks of one pass are \<open>loop\<close> (empty in the base class),
  \<open>__handleIncomingPackets\<close> and the sleep of \<open>threadContextSwitch\<close>; \<open>shutdown\<close> is
  empty in the base class.  The isle's thread runs beside the manager's: the list
  \<open>deliveries\<close> gives, for each pass, the packets the manager has put on the inbound queue
  by the time the pass drains it.  \<open>StillRunning\<close>: the passes listed are over and the
  loop goes on; \<open>Aborted\<close>: an exception left the loop and ended the thread.
\<close>

datatype eventloop_result = Stopped isle | Aborted pyexc isle | StillRunning isle

definition deliver :: "connection \<Rightarrow> packet list \<Rightarrow> connection" where
  "deliver c ps = foldl routerSend c ps"

fun eventloop_loop :: "(nat \<Rightarrow> string) \<Rightarrow> nat \<Rightarrow> isle \<Rightarrow> packet list list \<Rightarrow> eventloop_result" where
  "eventloop_loop uuid4 n self [] = (if running self then StillRunning self else Stopped self)"
| "eventloop_loop uuid4 n self (arrived # deliveries) =
     (if running self then
        (let self1 = self\<lparr> connection := deliver (connection self) arrived \<rparr>
         in case handleIncomingPackets uuid4 n self1 of
              (Some e, self2) \<Rightarrow> Aborted e self2
            | (None, self2) \<Rightarrow>
                eventloop_loop uuid4 (n + length (toOwner (connection self1))) self2 deliveries)
      else Stopped self)"

definition eventloop :: "(nat \<Rightarrow> string) \<Rightarrow> isle \<Rightarrow> packet list list \<Rightarrow> eventloop_result" where
  "eventloop uuid4 self deliveries = eventloop_loop uuid4 0 (self\<lparr> running := True \<rparr>) deliveries"

subsection \<open>Request and response\<close>

text \<open>\<open>raise v\<close>: the exception raised is \<open>v\<close> itself when it is an exception object,
  a \<open>TypeError\<close> otherwise.\<close>

definition py_raise :: "pyval \<Rightarrow> pyexc" where
  "py_raise v = (case v of VExc cls args \<Rightarrow> (cls, args)
                 | _ \<Rightarrow> (''TypeError'', [VStr ''exceptions must derive from BaseException'']))"

text \<open>What \<open>requestResponse\<close> does with the data of a packet whose identifier matches.\<close>

definition reply_outcome :: "pyval \<Rightarrow> pyexc + pyval" where
  "reply_outcome data' =
     (case py_contains_str ''return'' data' of
        Inl e \<Rightarrow> Inl e
      | Inr True \<Rightarrow> py_getitem_str data' ''return''
      | Inr False \<Rightarrow>
          (case py_contains_str ''exception'' data' of
             Inl e \<Rightarrow> Inl e
           | Inr True \<Rightarrow>
               (case py_getitem_str data' ''exception'' of
                  Inl e \<Rightarrow> Inl e
                | Inr v \<Rightarrow> Inl (py_raise v))
           | Inr False \<Rightarrow> Inl (''Exception'', [VStr ''Malformed packet received!''])))"

text \<open>
  One pass of the \<open>while True\<close> loop of \<open>requestResponse\<close> reads the clock, polls the
  inbound queue once and sleeps.  A \<open>tick\<close> is what the pass finds: the reading of
  \<open>time.time()\<close>, the packets the manager has put on the queue since the last poll, and
  those it puts there between this poll and the moment a packet that did not match is put
  back.  Clock readings are real numbers.
\<close>

record tick =
  now :: real
  arrivals :: "packet list"
  late_arrivals :: "packet list"

text \<open>The message of the \<open>TimeoutError\<close>, an f-string, as its segments.\<close>

definition timeout_error :: "string \<Rightarrow> pyval \<Rightarrow> pyval \<Rightarrow> pyexc" where
  "timeout_error isle_id identifier' receiver' =
     (''TimeoutError'', [VStr ''Packet timeout: isle '', VStr isle_id,
                         VStr '', identifier '', identifier', VStr '', to '', receiver'])"

text \<open>The loop.  The result is the outcome (the value returned or the exception raised)
  with the isle as it is then; the outcome is \<open>None\<close> when the ticks listed are over and
  the call is still waiting.\<close>

fun requestResponse_loop :: "pyval \<Rightarrow> pyval \<Rightarrow> real \<Rightarrow> isle \<Rightarrow> tick list
    \<Rightarrow> (pyexc + pyval) option \<times> isle" where
  "requestResponse_loop identifier' receiver' deadline self [] = (None, self)"
| "requestResponse_loop identifier' receiver' deadline self (t # ticks) =
     (if now t > deadline then
        (Some (Inl (timeout_error (isle_identifier self) identifier' receiver')), self)
      else
        (case ownerReceive (deliver (connection self) (arrivals t)) of
           (None, c) \<Rightarrow>
             requestResponse_loop identifier' receiver' deadline
               (self\<lparr> connection := deliver c (late_arrivals t) \<rparr>) ticks
         | (Some receivedPacket, c) \<Rightarrow>
             if py_eq (identifier receivedPacket) identifier' then
               (Some (reply_outcome (data receivedPacket)), self\<lparr> connection := c \<rparr>)
             else
               requestResponse_loop identifier' receiver' deadline
                 (self\<lparr> connection := routerSend (deliver c (late_arrivals t)) receivedPacket \<rparr>)
                 ticks))"

text \<open>\<open>Isle.requestResponse(packet, timeout=3)\<close>; \<open>timestamp\<close> is the clock reading taken
  after the packet is sent.\<close>

definition requestResponse :: "isle \<Rightarrow> packet \<Rightarrow> real \<Rightarrow> real \<Rightarrow> tick list
    \<Rightarrow> (pyexc + pyval) option \<times> isle" where
  "requestResponse self p timeout timestamp ticks =
     (let receiver' = receiver p;
          (self1, identifier') = sendPacket self p
      in requestResponse_loop identifier' receiver' (timestamp + timeout) self1 ticks)"

section \<open>SugarCall\<close>

record sugarcall =
  sugar_route :: "string list"
  sugar_owner :: isle

definition SugarCall :: "string list \<Rightarrow> isle \<Rightarrow> sugarcall" where
  "SugarCall route' owner' = \<lparr> sugar_route = route', sugar_owner = owner' \<rparr>"

definition createNewSugarCall :: "string list \<Rightarrow> isle \<Rightarrow> sugarcall" where
  "createNewSugarCall route' owner' = SugarCall route' owner'"

text \<open>\<open>SugarCall.__getattr__\<close>, which Python calls for an attribute name that the
  instance and its class do not have.\<close>

definition SugarCall_getattr :: "sugarcall \<Rightarrow> string \<Rightarrow> sugarcall" where
  "SugarCall_getattr self route' =
     createNewSugarCall ([route'] @ sugar_route self) (sugar_owner self)"

text \<open>The first line of \<open>SugarCall.__call__(*args, **kwargs)\<close>: the packet it builds.
  \<open>args\<close> is a tuple and \<open>kwargs\<close> a dictionary.\<close>

definition SugarCall_packet :: "string \<Rightarrow> sugarcall \<Rightarrow> pyval list \<Rightarrow> (string \<times> pyval) list
    \<Rightarrow> pyexc + packet" where
  "SugarCall_packet uuid self args kwargs =
     createPacket uuid (sugar_owner self) (VList (map VStr (sugar_route self)))
       (VDict [(''args'', VTuple args), (''kwargs'', VDict kwargs)])"

text \<open>\<open>SugarCall.__call__\<close>: the packet goes out through \<open>requestResponse\<close> with the
  default timeout of 3 seconds.\<close>

definition SugarCall_call :: "string \<Rightarrow> sugarcall \<Rightarrow> pyval list \<Rightarrow> (string \<times> pyval) list
    \<Rightarrow> real \<Rightarrow> tick list \<Rightarrow> (pyexc + pyval) option \<times> isle" where
  "SugarCall_call uuid self args kwargs timestamp ticks =
     (case SugarCall_packet uuid self args kwargs of
        Inl e \<Rightarrow> (Some (Inl e), sugar_owner self)
      | Inr p \<Rightarrow> requestResponse (sugar_owner self) p 3 timestamp ticks)"

section \<open>IsleManager\<close>

text \<open>A thread handle, by the name the thread was given.\<close>

datatype thread = Thread (thread_name: string)

text \<open>An entry of \<open>IsleManager.isles\<close>: \<open>{"connection": ..., "thread": ...}\<close>; the thread
  is \<open>None\<close> for a \<open>TempIsle\<close>.\<close>

record isle_entry =
  entry_connection :: connection
  entry_thread :: "thread option"

text \<open>The manager, as far as \<open>stop\<close> and \<open>TempIsle\<close> read and write it.  \<open>isles\<close> is a
  dictionary, in insertion order.  The log buffer and the log file hold the packets
  logged in place of their formatted lines.  \<open>joined\<close> records the threads \<open>stop\<close> has
  waited for, in order.\<close>

record manager =
  manager_identifier :: string
  isles :: "(string \<times> isle_entry) list"
  manager_running :: bool
  logbuffer :: "packet list"
  logfile :: "packet list"
  joined :: "string list"

definition IsleManager :: manager where
  "IsleManager = \<lparr> manager_identifier = ''islemanager'', isles = [], manager_running = False,
                    logbuffer = [], logfile = [], joined = [] \<rparr>"

text \<open>\<open>del d[k]\<close> on a dictionary kept in insertion order (\<open>d[k] = v\<close> is
  \<open>dict_set\<close>).\<close>

definition dict_del :: "('k \<times> 'v) list \<Rightarrow> 'k \<Rightarrow> ('k \<times> 'v) list" where
  "dict_del d k = filter (\<lambda>kv. fst kv \<noteq> k) d"

text \<open>\<open>IsleManager.addIsle\<close>: the entry holds the isle's connection and its new thread.\<close>

definition addIsle :: "manager \<Rightarrow> isle \<Rightarrow> manager" where
  "addIsle self isleInstance =
     self\<lparr> isles := dict_set (isles self) (isle_identifier isleInstance)
              \<lparr> entry_connection = connection isleInstance,
                entry_thread = Some (Thread (isle_identifier isleInstance)) \<rparr> \<rparr>"

text \<open>\<open>TempIsle.__enter__\<close> and \<open>TempIsle.__exit__\<close>, each under the manager's lock.\<close>

definition TempIsle_enter :: "manager \<Rightarrow> isle \<Rightarrow> manager" where
  "TempIsle_enter isleManagerReference self =
     isleManagerReference\<lparr> isles := dict_set (isles isleManagerReference) (isle_identifier self)
              \<lparr> entry_connection = connection self, entry_thread = None \<rparr> \<rparr>"

definition TempIsle_exit :: "manager \<Rightarrow> isle \<Rightarrow> pyexc + manager" where
  "TempIsle_exit isleManagerReference self =
     (if map_of (isles isleManagerReference) (isle_identifier self) = None
      then Inl (''KeyError'', [VStr (isle_identifier self)])
      else Inr (isleManagerReference\<lparr> isles := dict_del (isles isleManagerReference)
                  (isle_identifier self) \<rparr>))"

text \<open>\<open>IsleManager.createPacket\<close>: the sender is the manager's identifier itself, not a
  list.\<close>

definition IsleManager_createPacket :: "string \<Rightarrow> manager \<Rightarrow> pyval \<Rightarrow> pyval \<Rightarrow> packet" where
  "IsleManager_createPacket uuid self receiver' data' =
     Packet uuid (VStr (manager_identifier self)) receiver' data' VNone"

definition writeToLogBuffer :: "manager \<Rightarrow> packet \<Rightarrow> manager" where
  "writeToLogBuffer self p = self\<lparr> logbuffer := logbuffer self @ [p] \<rparr>"

text \<open>\<open>writeLogBufferToFile\<close>; \<open>writable\<close> is false when opening the file raises
  \<open>PermissionError\<close>, which the method catches.\<close>

definition writeLogBufferToFile :: "bool \<Rightarrow> manager \<Rightarrow> manager" where
  "writeLogBufferToFile writable self =
     (if writable then self\<lparr> logfile := logfile self @ logbuffer self, logbuffer := [] \<rparr>
      else self)"

text \<open>The first loop of \<open>IsleManager.stop\<close>, over the keys of \<open>isles\<close>: a shutdown packet
  for every isle.\<close>

fun stop_send :: "(nat \<Rightarrow> string) \<Rightarrow> nat \<Rightarrow> string list \<Rightarrow> manager \<Rightarrow> pyexc + manager" where
  "stop_send uuid4 n [] self = Inr self"
| "stop_send uuid4 n (isle' # rest) self =
     (let p = IsleManager_createPacket (uuid4 n) self (VStr isle') (VStr ''shutdown'');
          self1 = writeToLogBuffer self p
      in case map_of (isles self1) isle' of
           None \<Rightarrow> Inl (''KeyError'', [VStr isle'])
         | Some entry \<Rightarrow>
             stop_send uuid4 (n + 1) rest
               (self1\<lparr> isles := dict_set (isles self1) isle'
                  (entry\<lparr> entry_connection := routerSend (entry_connection entry) p \<rparr>) \<rparr>))"

text \<open>The second loop: \<open>self.isles[isle]["thread"].join()\<close> for every key.  Calling
  \<open>join\<close> on \<open>None\<close> raises \<open>AttributeError\<close>.\<close>

fun stop_join :: "string list \<Rightarrow> manager \<Rightarrow> pyexc option \<times> manager" where
  "stop_join [] self = (None, self)"
| "stop_join (isle' # rest) self =
     (case map_of (isles self) isle' of
        None \<Rightarrow> (Some (''KeyError'', [VStr isle']), self)
      | Some entry \<Rightarrow>
          (case entry_thread entry of
             None \<Rightarrow> (Some (''AttributeError'',
                          [VStr ''NoneType object has no attribute join'']), self)
           | Some t \<Rightarrow> stop_join rest (self\<lparr> joined := joined self @ [thread_name t] \<rparr>)))"

text \<open>\<open>IsleManager.stop\<close>.  The result is the exception that ended it, if one did, and
  the manager as it is then.\<close>

definition stop :: "(nat \<Rightarrow> string) \<Rightarrow> bool \<Rightarrow> manager \<Rightarrow> pyexc option \<times> manager" where
  "stop uuid4 writable self =
     (let self1 = writeLogBufferToFile writable self
      in case stop_send uuid4 0 (map fst (isles self1)) self1 of
           Inl e \<Rightarrow> (Some e, self1)
         | Inr self2 \<Rightarrow>
             (let self3 = writeLogBufferToFile writable self2
              in stop_join (map fst (isles self3)) self3))"

section \<open>Peer: the COBS framing codec (isleExpansions.py)\<close>

text \<open>Python's \<open>xs[a:b]\<close> for \<open>0 \<le> a\<close> and \<open>0 \<le> b\<close>: empty when \<open>b \<le> a\<close>, cut at the end
  of the list.\<close>

definition slice :: "'a list \<Rightarrow> nat \<Rightarrow> nat \<Rightarrow> 'a list" where
  "slice xs a b = take (b - a) (drop a xs)"

text \<open>\<open>bytes(xs)\<close> of a list of ints: \<open>ValueError\<close> unless every element is in
  \<open>range(0, 256)\<close>.\<close>

definition bytes :: "int list \<Rightarrow> pyexc + byte list" where
  "bytes xs =
     (if list_all (\<lambda>x. 0 \<le> x \<and> x < 256) xs then Inr (map word_of_int xs)
      else Inl (''ValueError'', [VStr ''bytes must be in range(0, 256)'']))"

text \<open>
  The \<open>while\<close> loop of \<open>Peer.COBS_encode\<close>.  \<open>index\<close> and \<open>offset\<close> are list
  positions (they start at 0 and only grow); the length code \<open>(index - offset) + 1\<close> is
  computed over Python's integers.
\<close>

function COBS_encode_loop :: "int list \<Rightarrow> nat \<Rightarrow> nat \<Rightarrow> int list \<Rightarrow> int list" where
  "COBS_encode_loop raw_list index offset coby_list =
     (if index < length raw_list then
        (if raw_list ! index = 0 then
           COBS_encode_loop raw_list (index + 1) (index + 1)
             (coby_list @ [(int index - int offset) + 1] @ slice raw_list offset index)
         else if int index - int offset = 254 then
           COBS_encode_loop raw_list index index
             (coby_list @ [255] @ slice raw_list offset index)
         else COBS_encode_loop raw_list (index + 1) offset coby_list)
      else coby_list)"
  by pat_completeness auto
termination
  by (relation "measure (\<lambda>(raw_list, index, offset, coby_list).
        2 * (length raw_list - index) + (if int index - int offset = 254 then 1 else 0))") auto

text \<open>\<open>Peer.COBS_encode\<close>: the assertion on the last byte (\<open>raw_packet[-1]\<close> raises
  \<open>IndexError\<close> on the empty byte string), the loop, and the terminating zero.\<close>

definition COBS_encode :: "byte list \<Rightarrow> pyexc + byte list" where
  "COBS_encode raw_packet =
     (if raw_packet = [] then Inl (''IndexError'', [VStr ''index out of range''])
      else if last raw_packet \<noteq> 0 then Inl (''AssertionError'', [VStr ''Not null terminated!''])
      else case bytes (COBS_encode_loop (map uint raw_packet) 0 0 []) of
             Inl e \<Rightarrow> Inl e
           | Inr coby \<Rightarrow> Inr (coby @ [0]))"

text \<open>The \<open>while\<close> loop of \<open>Peer.COBS_decode\<close>.  \<open>pointer\<close> is the absolute position of
  the next length code: it starts as the first byte and grows by every code read.\<close>

function COBS_decode_loop :: "byte list \<Rightarrow> nat \<Rightarrow> nat \<Rightarrow> nat \<Rightarrow> byte list \<Rightarrow> byte list" where
  "COBS_decode_loop raw_packet pointer index offset new_packet =
     (if index < length raw_packet then
        (if index = pointer then
           COBS_decode_loop raw_packet (pointer + unat (raw_packet ! index)) (index + 1) (index + 1)
             (if pointer < 255 \<or> pointer = length raw_packet - 1
              then new_packet @ slice raw_packet offset index @ [0]
              else new_packet @ slice raw_packet offset index)
         else COBS_decode_loop raw_packet pointer (index + 1) offset new_packet)
      else new_packet)"
  by pat_completeness auto
termination
  by (relation "measure (\<lambda>(raw_packet, pointer, index, offset, new_packet).
        length raw_packet - index)") auto

definition COBS_decode :: "byte list \<Rightarrow> pyexc + byte list" where
  "COBS_decode raw_packet =
     (if raw_packet = [] then Inl (''IndexError'', [VStr ''index out of range''])
      else if last raw_packet \<noteq> 0 then Inl (''AssertionError'', [VStr ''Not null terminated!''])
      else Inr (COBS_decode_loop raw_packet (unat (hd raw_packet)) 1 1 []))"

section \<open>Server (isleExpansions.py)\<close>

text \<open>A stream socket: the address it is bound to, and whether it listens.\<close>

record socket =
  bound :: "(string \<times> int) option"
  listening :: bool

definition socket_new :: socket where
  "socket_new = \<lparr> bound = None, listening = False \<rparr>"

definition bind :: "socket \<Rightarrow> string \<times> int \<Rightarrow> socket" where
  "bind s address = s\<lparr> bound := Some address \<rparr>"

definition listen :: "socket \<Rightarrow> socket" where
  "listen s = s\<lparr> listening := True \<rparr>"

record server =
  server_isle :: isle
  host :: string
  port :: int
  server_socket :: socket

text \<open>\<open>Server.__init__(identifier, host='127.0.0.1', port=44168, peer=Peer)\<close>.  The
  attribute \<open>port\<close> is assigned the constant 44168, whatever \<open>port\<close> was passed.\<close>

definition Server :: "string \<Rightarrow> (string \<times> attribute) list \<Rightarrow> string \<Rightarrow> int \<Rightarrow> server" where
  "Server identifier' attributes host' port' =
     (let self_host = host';
          self_port = 44168;
          s = listen (bind socket_new (self_host, self_port))
      in \<lparr> server_isle = Isle [] (Some identifier') attributes,
           host = self_host, port = self_port, server_socket = s \<rparr>)"


section \<open>The isle of the tests (tests/test_Isle.py)\<close>

text \<open>Python's binding of positional and keyword arguments to the parameters of a
  function that has no defaults; every mismatch is a \<open>TypeError\<close>.\<close>

fun bind_params :: "string list \<Rightarrow> pyval list \<Rightarrow> (string \<times> pyval) list \<Rightarrow> pyexc + pyval list" where
  "bind_params [] [] kwargs =
     (if kwargs = [] then Inr []
      else Inl (''TypeError'', [VStr ''got an unexpected keyword argument'']))"
| "bind_params [] (a # args) kwargs =
     Inl (''TypeError'', [VStr ''takes fewer positional arguments than were given''])"
| "bind_params (name # names) (a # args) kwargs =
     (if map_of kwargs name \<noteq> None
      then Inl (''TypeError'', [VStr ''got multiple values for an argument''])
      else case bind_params names args kwargs of Inl e \<Rightarrow> Inl e | Inr vs \<Rightarrow> Inr (a # vs))"
| "bind_params (name # names) [] kwargs =
     (case map_of kwargs name of
        None \<Rightarrow> Inl (''TypeError'', [VStr ''missing a required argument''])
      | Some v \<Rightarrow>
          (case bind_params names [] (dict_del kwargs name) of
             Inl e \<Rightarrow> Inl e | Inr vs \<Rightarrow> Inr (v # vs)))"

text \<open>The integer a value counts as in arithmetic (\<open>bool\<close> is a subclass of \<open>int\<close>).\<close>

fun py_int :: "pyval \<Rightarrow> int option" where
  "py_int (VInt i) = Some i"
| "py_int (VBool b) = Some (if b then 1 else 0)"
| "py_int v = None"

text \<open>\<open>a + b\<close> and \<open>a - b\<close>.\<close>

definition py_add :: "pyval \<Rightarrow> pyval \<Rightarrow> pyexc + pyval" where
  "py_add a b =
     (case (py_int a, py_int b) of
        (Some i, Some j) \<Rightarrow> Inr (VInt (i + j))
      | _ \<Rightarrow>
        (case (a, b) of
           (VStr s, VStr t) \<Rightarrow> Inr (VStr (s @ t))
         | (VList xs, VList ys) \<Rightarrow> Inr (VList (xs @ ys))
         | (VTuple xs, VTuple ys) \<Rightarrow> Inr (VTuple (xs @ ys))
         | _ \<Rightarrow> Inl (''TypeError'', [VStr ''unsupported operand type(s) for +''])))"

definition py_sub :: "pyval \<Rightarrow> pyval \<Rightarrow> pyexc + pyval" where
  "py_sub a b =
     (case (py_int a, py_int b) of
        (Some i, Some j) \<Rightarrow> Inr (VInt (i - j))
      | _ \<Rightarrow> Inl (''TypeError'', [VStr ''unsupported operand type(s) for -'']))"

text \<open>\<open>MyIsle.add(self, a, b)\<close> and \<open>MyIsle.sub(self, a, b)\<close>.\<close>

definition MyIsle_add :: handler where
  "MyIsle_add args kwargs =
     (case bind_params [''a'', ''b''] args kwargs of
        Inl e \<Rightarrow> Inl e
      | Inr vs \<Rightarrow> py_add (vs ! 0) (vs ! 1))"

definition MyIsle_sub :: handler where
  "MyIsle_sub args kwargs =
     (case bind_params [''a'', ''b''] args kwargs of
        Inl e \<Rightarrow> Inl e
      | Inr vs \<Rightarrow> py_sub (vs ! 0) (vs ! 1))"

text \<open>An attribute without the mark: a method of the base class that takes no argument
  and returns \<open>None\<close>.\<close>

definition plain_method :: attribute where
  "plain_method = Attribute None
     (\<lambda>args kwargs. case bind_params [] args kwargs of Inl e \<Rightarrow> Inl e | Inr vs \<Rightarrow> Inr VNone)"

text \<open>\<open>MyIsle(identifier)\<close>: the two routes among the methods of the base class.\<close>

definition MyIsle :: "string \<Rightarrow> isle" where
  "MyIsle identifier' =
     Isle [] (Some identifier')
       [(''add'', route MyIsle_add), (''loop'', plain_method), (''setup'', plain_method),
        (''shutdown'', plain_method), (''sub'', route MyIsle_sub)]"

text \<open>A route whose body divides by zero, as the test of \<open>requestResponse\<close> does to get
  an exception: \<open>return 200 / 0\<close>.\<close>

definition divide_by_zero :: handler where
  "divide_by_zero args kwargs =
     (case bind_params [] args kwargs of
        Inl e \<Rightarrow> Inl e
      | Inr vs \<Rightarrow> Inl (''ZeroDivisionError'', [VStr ''division by zero'']))"


text \<open>The packet of the tests: \<open>MyIsle("eiland").createPacket(["Santa"], {"abc": 123})\<close>
  with its identifier set to \<open>"packetidentifier"\<close>.\<close>

definition santa :: packet where
  "santa = \<lparr> identifier = VStr ''packetidentifier'', sender = VList [VStr ''eiland''],
             receiver = VList [VStr ''Santa''], data = VDict [(''abc'', VInt 123)] \<rparr>"



section \<open>The packets of the tests (tests/test_Packet.py)\<close>

definition packetA :: packet where
  "packetA = Packet [] (VList [VStr ''Alice'']) (VList [VStr ''Bob''])
     (VDict [(''a'', VInt 1), (''b'', VInt 2), (''c'', VList [VInt 3, VInt 4, VInt 5])])
     (VStr ''Spam'')"

definition packetB :: packet where
  "packetB = Packet [] (VList [VStr ''Mario'']) (VList [VStr ''Luigi''])
     (VDict [(''game'', VStr ''Super Mario Bros''), (''lives'', VInt 12), (''score'', VInt 1000),
             (''time'', VInt 300)])
     (VStr ''Bro'')"

section \<open>Notions for the proof of the JSON round trip\<close>

text \<open>What may follow a value in the text of a serialized value.\<close>

definition delimited :: "string \<Rightarrow> bool" where
  "delimited s = (case s of [] \<Rightarrow> True | c # r \<Rightarrow> c = CHR '','' \<or> c = CHR '']'' \<or> c = CHR ''}'')"




section \<open>The packet round trip\<close>

subsection \<open>Strings\<close>







subsection \<open>UTF-8\<close>




subsection \<open>The mapping form\<close>


subsection \<open>Numbers\<close>












lemma delimited_simps [simp]:
  "delimited []" "delimited (CHR '','' # r)" "delimited (CHR '']'' # r)" "delimited (CHR ''}'' # r)"
  by (simp_all add: delimited_def)












lemma skip_ws_delims [simp]:
  "skip_ws (CHR '','' # s) = CHR '','' # s" "skip_ws (CHR '']'' # s) = CHR '']'' # s"
  "skip_ws (CHR ''}'' # s) = CHR ''}'' # s" "skip_ws (CHR '':'' # s) = CHR '':'' # s"
  "skip_ws (CHR 0x22 # s) = CHR 0x22 # s" "skip_ws [] = []"
  by (simp_all add: skip_ws_def is_ws_def)




















lemma test_toJSON:
  \<open>toJSON packetA = Inr ''{"identifier":"Spam","sender":["Alice"],"receiver":["Bob"],"data":{"a":1,"b":2,"c":[3,4,5]}}''\<close>
  \<open>toJSON packetB = Inr ''{"identifier":"Bro","sender":["Mario"],"receiver":["Luigi"],"data":{"game":"Super Mario Bros","lives":12,"score":1000,"time":300}}''\<close>
  by code_simp+



section \<open>The call proxy\<close>

lemma foldl_SugarCall_getattr:
  "foldl SugarCall_getattr sc names
   = \<lparr> sugar_route = rev names @ sugar_route sc, sugar_owner = sugar_owner sc \<rparr>"
  by (induction names arbitrary: sc)
     (simp_all add: SugarCall_getattr_def createNewSugarCall_def SugarCall_def)

lemma toRouter_deliver: "toRouter (deliver c ps) = toRouter c"
  by (induction ps arbitrary: c) (simp_all add: deliver_def routerSend_def)

lemma toOwner_deliver: "toOwner (deliver c ps) = toOwner c @ ps"
  by (induction ps arbitrary: c) (simp_all add: deliver_def routerSend_def)

lemma toRouter_ownerReceive: "ownerReceive c = (r, c') \<Longrightarrow> toRouter c' = toRouter c"
  by (auto simp: ownerReceive_def split: list.splits)

lemma toRouter_requestResponse_loop:
  "toRouter (connection (snd (requestResponse_loop i r d self ticks)))
   = toRouter (connection self)"
proof (induction ticks arbitrary: self)
  case Nil
  show ?case by simp
next
  case (Cons t ticks)
  show ?case
    by (auto simp: Cons.IH toRouter_deliver routerSend_def
        split: prod.splits option.splits dest!: toRouter_ownerReceive)
qed


text \<open>
  C8.  The call proxy accumulates a reversed path.  For every chain of attribute names,
  arguments and keyword arguments, the packet \<open>__call__\<close> builds has the names in reverse
  order as its receiver (final destination first) and \<open>{args: ..., kwargs: ...}\<close> as its
  data; for \<open>call.A.B.C(1, 2, x=3)\<close> the receiver is \<open>[C, B, A]\<close> and the data
  \<open>{args: (1, 2), kwargs: {x: 3}}\<close>; and the call puts exactly that packet on the owner's
  queue to the manager, whatever happens while it waits for the reply.
\<close>

theorem SugarCall_reversed_path:
  "SugarCall_packet uuid (foldl SugarCall_getattr (SugarCall [] owner') names) args kwargs
     = Inr \<lparr> identifier = VStr uuid, sender = VList [VStr (isle_identifier owner')],
             receiver = VList (map VStr (rev names)),
             data = VDict [(''args'', VTuple args), (''kwargs'', VDict kwargs)] \<rparr>
   \<and> SugarCall_packet uuid
       (SugarCall_getattr (SugarCall_getattr (SugarCall_getattr (SugarCall [] owner') ''A'') ''B'') ''C'')
       [VInt 1, VInt 2] [(''x'', VInt 3)]
     = Inr \<lparr> identifier = VStr uuid, sender = VList [VStr (isle_identifier owner')],
             receiver = VList [VStr ''C'', VStr ''B'', VStr ''A''],
             data = VDict [(''args'', VTuple [VInt 1, VInt 2]), (''kwargs'', VDict [(''x'', VInt 3)])] \<rparr>
   \<and> toRouter (connection (snd (SugarCall_call uuid
         (foldl SugarCall_getattr (SugarCall [] owner') names) args kwargs timestamp ticks)))
     = toRouter (connection owner') @
       [\<lparr> identifier = VStr uuid, sender = VList [VStr (isle_identifier owner')],
          receiver = VList (map VStr (rev names)),
          data = VDict [(''args'', VTuple args), (''kwargs'', VDict kwargs)] \<rparr>]"
proof -
  have p: "SugarCall_packet uuid (foldl SugarCall_getattr (SugarCall [] owner') names) args kwargs
     = Inr \<lparr> identifier = VStr uuid, sender = VList [VStr (isle_identifier owner')],
             receiver = VList (map VStr (rev names)),
             data = VDict [(''args'', VTuple args), (''kwargs'', VDict kwargs)] \<rparr>" for names args kwargs
    by (simp add: foldl_SugarCall_getattr SugarCall_packet_def createPacket_def Packet_def
        SugarCall_def)
  have own: "sugar_owner (foldl SugarCall_getattr (SugarCall [] owner') names) = owner'"
    by (simp add: foldl_SugarCall_getattr SugarCall_def)
  have "SugarCall_packet uuid (foldl SugarCall_getattr (SugarCall [] owner') [''A'', ''B'', ''C''])
          [VInt 1, VInt 2] [(''x'', VInt 3)]
     = Inr \<lparr> identifier = VStr uuid, sender = VList [VStr (isle_identifier owner')],
             receiver = VList (map VStr (rev [''A'', ''B'', ''C''])),
             data = VDict [(''args'', VTuple [VInt 1, VInt 2]), (''kwargs'', VDict [(''x'', VInt 3)])] \<rparr>"
    by (rule p)
  then have abc: "SugarCall_packet uuid
       (SugarCall_getattr (SugarCall_getattr (SugarCall_getattr (SugarCall [] owner') ''A'') ''B'') ''C'')
       [VInt 1, VInt 2] [(''x'', VInt 3)]
     = Inr \<lparr> identifier = VStr uuid, sender = VList [VStr (isle_identifier owner')],
             receiver = VList [VStr ''C'', VStr ''B'', VStr ''A''],
             data = VDict [(''args'', VTuple [VInt 1, VInt 2]), (''kwargs'', VDict [(''x'', VInt 3)])] \<rparr>"
    by simp
  have sent: "toRouter (connection (snd (SugarCall_call uuid
         (foldl SugarCall_getattr (SugarCall [] owner') names) args kwargs timestamp ticks)))
     = toRouter (connection owner') @
       [\<lparr> identifier = VStr uuid, sender = VList [VStr (isle_identifier owner')],
          receiver = VList (map VStr (rev names)),
          data = VDict [(''args'', VTuple args), (''kwargs'', VDict kwargs)] \<rparr>]"
    by (simp add: SugarCall_call_def p own requestResponse_def sendPacket_def
        toRouter_requestResponse_loop ownerSend_def)
  from p abc sent show ?thesis by blast
qed


section \<open>Dispatch to local handlers\<close>














section \<open>Errors raised by handlers\<close>

text \<open>
  C6.  A handler that raises anything but \<open>TypeError\<close> is not answered and ends the event
  loop.  The isle \<open>eiland\<close> exposes \<open>crash\<close>, whose body divides by zero; one request for
  it arrives.  No reply is put on the queue to the manager, and the \<open>ZeroDivisionError\<close>
  leaves \<open>eventloop\<close>.
\<close>

theorem handler_error_aborts_eventloop:
  "(case eventloop uuid4 (Isle [] (Some ''eiland'') [(''crash'', route divide_by_zero)])
          [[santa\<lparr> receiver := VList [VStr ''crash'', VStr ''eiland''],
                   data := VDict [(''args'', VTuple []), (''kwargs'', VDict [])] \<rparr>]]
    of Aborted e self' \<Rightarrow> Some (e, connection self') | _ \<Rightarrow> None)
   = Some ((''ZeroDivisionError'', [VStr ''division by zero'']),
           \<lparr> toRouter = [], toOwner = [] \<rparr>)"
  by code_simp

section \<open>Packets nobody takes\<close>

text \<open>
  C7.  A packet accepted by none of the three predicates gets no reply.  The isle
  \<open>eiland\<close> of the tests receives the packet \<open>santa\<close> addressed to \<open>["eiland"]\<close> with data
  \<open>{"abc": 123}\<close>: it is no late reply, has one hop and is no shutdown.
  \<open>__handleIncomingPackets\<close> returns with the queue to the manager empty.
\<close>

theorem no_taker_reply_is_not_sent:
  "(case handleIncomingPackets uuid4 0
          ((MyIsle ''eiland'')\<lparr> connection := routerSend (connection (MyIsle ''eiland''))
             (santa\<lparr> receiver := VList [VStr ''eiland''] \<rparr>) \<rparr>)
    of (e, self') \<Rightarrow> (e, connection self'))
   = (None, \<lparr> toRouter = [], toOwner = [] \<rparr>)"
  by code_simp

section \<open>Request and response\<close>









section \<open>Server\<close>

text \<open>
  C9.  \<open>Server("server", "127.0.0.1", 8080)\<close> does not listen on port 8080: the
  constructor binds its socket to port 44168.
\<close>

theorem Server_ignores_port:
  "server_socket (Server ''server'' [] ''127.0.0.1'' 8080)
   = \<lparr> bound = Some (''127.0.0.1'', 44168), listening = True \<rparr>"
  by (simp add: Server_def socket_new_def bind_def listen_def Let_def)

section \<open>Shutdown with a temporary isle\<close>

text \<open>
  C10.  The manager holds the isle \<open>gibson\<close> and a \<open>TempIsle\<close> \<open>temp\<close>, whose thread handle
  is \<open>None\<close>.  \<open>stop\<close> joins the thread of \<open>gibson\<close>, then calls \<open>join\<close> on the
  \<open>None\<close> of \<open>temp\<close> and ends with the \<open>AttributeError\<close>.
\<close>

theorem stop_joins_null_thread:
  "(case stop uuid4 True
          (TempIsle_enter (addIsle IsleManager (MyIsle ''gibson'')) (Isle ''temp'' None []))
    of (e, self') \<Rightarrow>
         (e, map (\<lambda>kv. (fst kv, entry_thread (snd kv))) (isles self'), joined self'))
   = (Some (''AttributeError'', [VStr ''NoneType object has no attribute join'']),
      [(''gibson'', Some (Thread ''gibson'')), (''temp'', None)], [''gibson''])"
  by code_simp

section \<open>The COBS conformance vectors\<close>

lemma COBS_encode_vector1: "COBS_encode [0, 0] = Inr [1, 1, 0]"
  by code_simp

lemma COBS_encode_vector2: "COBS_encode [0, 0, 0] = Inr [1, 1, 1, 0]"
  by code_simp

lemma COBS_encode_vector3:
  "COBS_encode [0x11, 0x22, 0x33, 0x44, 0] = Inr [5, 0x11, 0x22, 0x33, 0x44, 0]"
  by code_simp

lemma COBS_encode_vector4:
  "COBS_encode [0x11, 0x22, 0, 0x33, 0] = Inr [3, 0x11, 0x22, 2, 0x33, 0]"
  by code_simp

lemma COBS_encode_vector5:
  "COBS_encode [0x11, 0, 0, 0, 0] = Inr [2, 0x11, 1, 1, 1, 0]"
  by code_simp

lemma COBS_encode_vector6:
  "COBS_encode (map of_nat [1..<255] @ [0]) = Inr (255 # map of_nat [1..<255] @ [0])"
  by code_simp

lemma COBS_encode_vector7:
  "COBS_encode (map of_nat [0..<255] @ [0]) = Inr (1 # 255 # map of_nat [1..<255] @ [0])"
  by code_simp

lemma COBS_encode_vector8:
  "COBS_encode (map of_nat [1..<256] @ [0]) = Inr (255 # map of_nat [1..<255] @ [2, 255, 0])"
  by code_simp

text \<open>
  C4.  \<open>COBS_encode\<close> maps each conformance vector of the specification (the table of
  \<open>tests/test_COBS.py\<close>) to exactly the listed encoding.  In particular the 254 non-zero
  bytes \<open>0x01..0xFE\<close> followed by \<open>0x00\<close> encode as \<open>0xFF\<close>, those 254 bytes and the
  terminating \<open>0x00\<close>; and \<open>11 22 00 33 00\<close> encodes as \<open>03 11 22 02 33 00\<close>.
\<close>

theorem COBS_encode_conformance_vectors:
  "COBS_encode [0, 0] = Inr [1, 1, 0]
   \<and> COBS_encode [0, 0, 0] = Inr [1, 1, 1, 0]
   \<and> COBS_encode [0x11, 0x22, 0x33, 0x44, 0] = Inr [5, 0x11, 0x22, 0x33, 0x44, 0]
   \<and> COBS_encode [0x11, 0x22, 0, 0x33, 0] = Inr [3, 0x11, 0x22, 2, 0x33, 0]
   \<and> COBS_encode [0x11, 0, 0, 0, 0] = Inr [2, 0x11, 1, 1, 1, 0]
   \<and> COBS_encode (map of_nat [1..<255] @ [0]) = Inr (255 # map of_nat [1..<255] @ [0])
   \<and> COBS_encode (map of_nat [0..<255] @ [0]) = Inr (1 # 255 # map of_nat [1..<255] @ [0])
   \<and> COBS_encode (map of_nat [1..<256] @ [0])
       = Inr (255 # map of_nat [1..<255] @ [2, 255, 0])"
  by (intro conjI COBS_encode_vector1 COBS_encode_vector2 COBS_encode_vector3
        COBS_encode_vector4 COBS_encode_vector5 COBS_encode_vector6 COBS_encode_vector7
        COBS_encode_vector8)

section \<open>The COBS round trip\<close>

lemma COBS_encode_256_zeros: "COBS_encode (replicate 256 0) = Inr (replicate 256 1 @ [0])"
  by code_simp

lemma COBS_decode_256_ones: "COBS_decode (replicate 256 1 @ [0]) = Inr (replicate 255 0)"
  by code_simp

text \<open>
  C3.  The round trip \<open>decode(encode(s)) = s\<close> fails on the byte string of 256 zero bytes
  (it ends with \<open>0x00\<close>): its frame is 256 bytes \<open>0x01\<close> and the terminator, and the
  decoder returns 255 zero bytes.  \<open>COBS_decode\<close> compares the absolute position
  \<open>pointer\<close> with 255 where the length code read at the previous pointer is meant, so a
  code at position 255 or later that is not the last one gets no zero.
\<close>

theorem COBS_roundtrip_fails_256_zeros:
  "(case COBS_encode (replicate 256 0) of Inl e \<Rightarrow> Inl e | Inr frame \<Rightarrow> COBS_decode frame)
   = Inr (replicate 255 0)"
  by (simp only: COBS_encode_256_zeros COBS_decode_256_ones sum.case)


end
